theory Spec2Isabelle
  imports Main
begin

section \<open>JavaScript strings and arrays\<close>

text \<open>
  Strings are lists of characters. The generators only copy and concatenate the
  strings they are given; the only character tests are truthiness (a string is
  falsy exactly when it is empty) and the final \<open>trim()\<close>.
\<close>

text \<open>\<open>Array.prototype.join\<close> on an array of strings.\<close>

fun array_join :: "string \<Rightarrow> string list \<Rightarrow> string" where
  "array_join sep [] = []"
| "array_join sep [x] = x"
| "array_join sep (x # y # ys) = x @ sep @ array_join sep (y # ys)"

text \<open>Truthiness of an optional string: \<open>undefined\<close> and \<open>''\<close> are falsy.\<close>

definition truthy :: "string option \<Rightarrow> bool" where
  "truthy v = (case v of None \<Rightarrow> False | Some s \<Rightarrow> s \<noteq> [])"

text \<open>
  \<open>String.prototype.trim\<close>: the white-space characters of the ASCII range
  (tab, line feed, vertical tab, form feed, carriage return, space) are removed
  from both ends.
\<close>

definition isWhiteSpace :: "char \<Rightarrow> bool" where
  "isWhiteSpace c =
     (c = CHR 0x09 \<or> c = CHR 0x0A \<or> c = CHR 0x0B \<or> c = CHR 0x0C \<or> c = CHR 0x0D \<or> c = CHR '' '')"

definition trim :: "string \<Rightarrow> string" where
  "trim s = rev (dropWhile isWhiteSpace (rev (dropWhile isWhiteSpace s)))"

section \<open>The model definition (Types.mts, as the generator reads it)\<close>

text \<open>
  \<open>unique\<close> of an attribute is a boolean, a constraint name, or an object with an
  optional \<open>name\<close>.
\<close>

datatype unique_spec = UniqueFlag bool | UniqueName string | UniqueObject "string option"

record generated_spec =
  expression :: string
  stored :: bool

record reference_spec =
  table :: string
  column :: string

text \<open>
  An attribute. \<open>None\<close> is \<open>undefined\<close>. The boolean fields the generator only
  tests for truthiness are booleans here (\<open>undefined\<close> is \<open>False\<close>);
  \<open>allowNull\<close> is compared with \<open>=== false\<close>, so it keeps its three values.
  The type of default values is left open: they only reach \<open>formatDefaultValue\<close>.
\<close>

record 'v attribute_spec =
  attrType :: string
  primaryKey :: bool
  autoIncrement :: bool
  allowNull :: "bool option"
  unique :: "unique_spec option"
  defaultValue :: "'v option"
  check :: "string option"
  collate :: "string option"
  generated :: "generated_spec option"
  references :: "reference_spec option"
  onDelete :: "string option"
  onUpdate :: "string option"
  deferrable :: bool
  deferred :: bool

text \<open>\<open>options.primaryKey\<close>: one column name, or an array of column names.\<close>

datatype primary_key_option = PkName string | PkList "string list"

text \<open>
  \<open>references.fields\<close> of a table-level foreign key: an array of column names, or
  one name.
\<close>

datatype reference_fields = RefFieldList "string list" | RefFieldName string

record foreign_key_reference =
  refTable :: string
  refFields :: reference_fields

text \<open>
  A table-level foreign key. \<open>fkFields = None\<close> stands for a \<open>fields\<close> that is
  missing or not an array (\<open>Array.isArray\<close> is false).
\<close>

record foreign_key_spec =
  fkFields :: "string list option"
  fkReferences :: "foreign_key_reference option"
  fkOnDelete :: "string option"
  fkOnUpdate :: "string option"
  fkDeferrable :: bool
  fkDeferred :: bool

text \<open>
  \<open>options.constraints\<close>. Each mapping is the list of its entries, in the order
  \<open>Object.entries\<close> enumerates them.
\<close>

record constraints_spec =
  uniqueConstraints :: "(string \<times> string list) list option"
  checkConstraints :: "(string \<times> string) list option"
  foreignKey :: "(string \<times> foreign_key_spec) list option"

record virtual_spec =
  usingModule :: "string option"
  args :: "string list option"

record table_options =
  virtual :: "virtual_spec option"
  underscored :: bool
  tablePrimaryKey :: "primary_key_option option"
  constraints :: "constraints_spec option"
  strict :: bool
  withoutRowid :: bool
  temporary :: bool
  ifNotExists :: bool

text \<open>
  The definition. \<open>attributes\<close> is the list of entries of the attribute object in
  the order of \<open>Object.entries\<close>; a property read \<open>def.attributes[k]\<close> is
  \<open>map_of\<close>. \<open>options = None\<close> is a definition without options.
\<close>

record 'v model_definition =
  tableName :: string
  attributes :: "(string \<times> 'v attribute_spec) list"
  options :: "table_options option"

text \<open>
  The three functions imported from \<open>./utils.js\<close>, which is not part of the
  sources at hand: they are parameters of the generator.
\<close>

record 'v utils =
  snakeCase :: "string \<Rightarrow> string"
  mapDataType :: "string \<Rightarrow> string"
  formatDefaultValue :: "'v \<Rightarrow> string"

text \<open>The one error the module throws: \<open>new Error(message)\<close>.\<close>

datatype error = Error string

section \<open>Reading options\<close>

text \<open>\<open>def.options?.f\<close> for a boolean field, tested for truthiness.\<close>

definition optionFlag :: "(table_options \<Rightarrow> bool) \<Rightarrow> table_options option \<Rightarrow> bool" where
  "optionFlag f opts = (case opts of None \<Rightarrow> False | Some o' \<Rightarrow> f o')"

text \<open>\<open>def.options?.f\<close> for an optional field.\<close>

definition optionField :: "(table_options \<Rightarrow> 'a option) \<Rightarrow> table_options option \<Rightarrow> 'a option" where
  "optionField f opts = (case opts of None \<Rightarrow> None | Some o' \<Rightarrow> f o')"

text \<open>
  Truthiness of \<open>def.options?.primaryKey\<close>: an array is truthy (also the empty
  one), a string is truthy unless empty.
\<close>

definition primaryKeyTruthy :: "table_options option \<Rightarrow> bool" where
  "primaryKeyTruthy opts =
     (case optionField tablePrimaryKey opts of
        None \<Rightarrow> False
      | Some (PkName s) \<Rightarrow> s \<noteq> []
      | Some (PkList cols) \<Rightarrow> True)"

text \<open>\<open>typeof def.options.primaryKey === 'string'\<close>.\<close>

definition primaryKeyIsString :: "table_options option \<Rightarrow> bool" where
  "primaryKeyIsString opts =
     (case optionField tablePrimaryKey opts of Some (PkName s) \<Rightarrow> True | _ \<Rightarrow> False)"

section \<open>generateVirtualTableSQL\<close>

text \<open>
  A missing \<open>using\<close> is interpolated by the template literal as the text
  \<open>undefined\<close>; \<open>args?.join(', ') || ''\<close> is the empty text when \<open>args\<close> is
  missing or joins to the empty text.
\<close>

definition generateVirtualTableSQL :: "'v model_definition \<Rightarrow> error + string" where
  "generateVirtualTableSQL d =
     (case optionField virtual (options d) of
        None \<Rightarrow> Inl (Error ''Virtual table options are required'')
      | Some v \<Rightarrow>
          Inr (''CREATE VIRTUAL TABLE ''
               @ (if optionFlag ifNotExists (options d) then ''IF NOT EXISTS '' else '''')
               @ tableName d
               @ '' USING ''
               @ (case usingModule v of None \<Rightarrow> ''undefined'' | Some m \<Rightarrow> m)
               @ '' (''
               @ (case args v of
                    None \<Rightarrow> ''''
                  | Some a \<Rightarrow> (if array_join '', '' a = [] then '''' else array_join '', '' a))
               @ '')''))"

section \<open>generateCreateTableSQL: one column\<close>

text \<open>\<open>if (v) parts.push(f v)\<close> for an optional string \<open>v\<close>.\<close>

definition whenTruthy :: "string option \<Rightarrow> (string \<Rightarrow> string) \<Rightarrow> string list" where
  "whenTruthy v f = (case v of None \<Rightarrow> [] | Some s \<Rightarrow> (if s = [] then [] else [f s]))"

text \<open>\<open>const colName = def.options?.underscored ? snakeCase(name) : name\<close>.\<close>

definition columnName :: "'v utils \<Rightarrow> table_options option \<Rightarrow> string \<Rightarrow> string" where
  "columnName u opts name = (if optionFlag underscored opts then snakeCase u name else name)"

text \<open>
  The column-level primary key (the block under \<open>if (attr.primaryKey)\<close>): what is
  pushed on \<open>parts\<close>.
\<close>

definition primaryKeyParts :: "table_options option \<Rightarrow> 'v attribute_spec \<Rightarrow> string list" where
  "primaryKeyParts opts attr =
     (if primaryKey attr then
        (if \<not> primaryKeyTruthy opts \<or> primaryKeyIsString opts
         then ''PRIMARY KEY'' # (if autoIncrement attr then [''AUTOINCREMENT''] else [])
         else [])
      else [])"

definition notNullParts :: "'v attribute_spec \<Rightarrow> string list" where
  "notNullParts attr = (if allowNull attr = Some False then [''NOT NULL''] else [])"

text \<open>
  \<open>if (attr.unique)\<close>: a \<open>true\<close> pushes \<open>UNIQUE\<close> on \<open>parts\<close>; a non-empty
  name, or an object with a truthy \<open>name\<close>, pushes a named constraint on
  \<open>tableConstraints\<close>.
\<close>

definition uniqueParts :: "'v attribute_spec \<Rightarrow> string list" where
  "uniqueParts attr = (case unique attr of Some (UniqueFlag True) \<Rightarrow> [''UNIQUE''] | _ \<Rightarrow> [])"

definition uniqueTableConstraints :: "string \<Rightarrow> 'v attribute_spec \<Rightarrow> string list" where
  "uniqueTableConstraints colName attr =
     (case unique attr of
        Some (UniqueName n) \<Rightarrow>
          whenTruthy (Some n) (\<lambda>n. ''CONSTRAINT '' @ n @ '' UNIQUE ('' @ colName @ '')'')
      | Some (UniqueObject n) \<Rightarrow>
          whenTruthy n (\<lambda>n. ''CONSTRAINT '' @ n @ '' UNIQUE ('' @ colName @ '')'')
      | _ \<Rightarrow> [])"

definition defaultParts :: "'v utils \<Rightarrow> 'v attribute_spec \<Rightarrow> string list" where
  "defaultParts u attr =
     (case defaultValue attr of
        None \<Rightarrow> []
      | Some v \<Rightarrow> [''DEFAULT '' @ formatDefaultValue u v])"

definition checkParts :: "'v attribute_spec \<Rightarrow> string list" where
  "checkParts attr = whenTruthy (check attr) (\<lambda>c. ''CHECK ('' @ c @ '')'')"

definition collateParts :: "string \<Rightarrow> 'v attribute_spec \<Rightarrow> string list" where
  "collateParts type attr =
     (if type = ''TEXT'' then whenTruthy (collate attr) (\<lambda>c. ''COLLATE '' @ c) else [])"

definition generatedParts :: "'v attribute_spec \<Rightarrow> string list" where
  "generatedParts attr =
     (case generated attr of
        None \<Rightarrow> []
      | Some g \<Rightarrow>
          [''GENERATED ALWAYS AS ('' @ expression g @ '') ''
           @ (if stored g then ''STORED'' else ''VIRTUAL'')])"

definition referencesParts :: "'v attribute_spec \<Rightarrow> string list" where
  "referencesParts attr =
     (case references attr of
        None \<Rightarrow> []
      | Some r \<Rightarrow>
          [''REFERENCES '' @ table r @ ''('' @ column r @ '')'']
          @ whenTruthy (onDelete attr) (\<lambda>a. ''ON DELETE '' @ a)
          @ whenTruthy (onUpdate attr) (\<lambda>a. ''ON UPDATE '' @ a)
          @ (if deferrable attr
             then [''DEFERRABLE INITIALLY '' @ (if deferred attr then ''DEFERRED'' else ''IMMEDIATE'')]
             else []))"

text \<open>
  The clauses pushed on \<open>parts\<close> after its first two elements (the column name
  and the type), in the order of the source.
\<close>

definition columnClauses :: "'v utils \<Rightarrow> table_options option \<Rightarrow> 'v attribute_spec \<Rightarrow> string list" where
  "columnClauses u opts attr =
     primaryKeyParts opts attr
     @ notNullParts attr
     @ uniqueParts attr
     @ defaultParts u attr
     @ checkParts attr
     @ collateParts (mapDataType u (attrType attr)) attr
     @ generatedParts attr
     @ referencesParts attr"

text \<open>\<open>parts\<close> at the end of one iteration of the loop over the attributes.\<close>

definition columnParts ::
  "'v utils \<Rightarrow> table_options option \<Rightarrow> string \<Rightarrow> 'v attribute_spec \<Rightarrow> string list" where
  "columnParts u opts name attr =
     [columnName u opts name, mapDataType u (attrType attr)] @ columnClauses u opts attr"

text \<open>
  The loop over \<open>Object.entries(def.attributes)\<close>, with the two arrays it pushes
  on: \<open>columns\<close> and \<open>tableConstraints\<close>.
\<close>

fun processAttributes ::
  "'v utils \<Rightarrow> table_options option \<Rightarrow> (string \<times> 'v attribute_spec) list
     \<Rightarrow> string list \<times> string list \<Rightarrow> string list \<times> string list" where
  "processAttributes u opts [] (columns, tableConstraints) = (columns, tableConstraints)"
| "processAttributes u opts ((name, attr) # rest) (columns, tableConstraints) =
     processAttributes u opts rest
       (columns @ [array_join '' '' (columnParts u opts name attr)],
        tableConstraints @ uniqueTableConstraints (columnName u opts name) attr)"

section \<open>generateCreateTableSQL: table constraints\<close>

text \<open>\<open>def.attributes[k]?.primaryKey\<close>, tested for truthiness.\<close>

definition attributePrimaryKey :: "'v model_definition \<Rightarrow> string \<Rightarrow> bool" where
  "attributePrimaryKey d k =
     (case map_of (attributes d) k of None \<Rightarrow> False | Some attr \<Rightarrow> primaryKey attr)"

text \<open>The block under \<open>if (def.options?.primaryKey)\<close>.\<close>

definition primaryKeyTableConstraints :: "'v model_definition \<Rightarrow> string list" where
  "primaryKeyTableConstraints d =
     (if primaryKeyTruthy (options d) then
        (case optionField tablePrimaryKey (options d) of
           Some (PkList cols) \<Rightarrow> [''PRIMARY KEY ('' @ array_join '', '' cols @ '')'']
         | Some (PkName s) \<Rightarrow>
             (if \<not> attributePrimaryKey d s then [''PRIMARY KEY ('' @ s @ '')''] else [])
         | None \<Rightarrow> [])
      else [])"

text \<open>The loop over \<open>constraints.unique\<close>: an empty list of fields is skipped.\<close>

fun uniqueConstraintTexts :: "(string \<times> string list) list \<Rightarrow> string list" where
  "uniqueConstraintTexts [] = []"
| "uniqueConstraintTexts ((name, fs) # rest) =
     (if length fs > 0
      then [''CONSTRAINT '' @ name @ '' UNIQUE ('' @ array_join '', '' fs @ '')'']
      else [])
     @ uniqueConstraintTexts rest"

fun checkConstraintTexts :: "(string \<times> string) list \<Rightarrow> string list" where
  "checkConstraintTexts [] = []"
| "checkConstraintTexts ((name, e) # rest) =
     (''CONSTRAINT '' @ name @ '' CHECK ('' @ e @ '')'') # checkConstraintTexts rest"

text \<open>
  One entry of \<open>constraints.foreignKey\<close>: \<open>None\<close> when the entry is skipped,
  the value of \<open>constraint\<close> at the push otherwise.
\<close>

definition foreignKeyConstraint :: "string \<Rightarrow> foreign_key_spec \<Rightarrow> string option" where
  "foreignKeyConstraint name fk =
     (case fkFields fk of
        None \<Rightarrow> None
      | Some fs \<Rightarrow>
          (if length fs > 0 then
             (case fkReferences fk of
                None \<Rightarrow> None
              | Some r \<Rightarrow>
                  Some (''CONSTRAINT '' @ name @ '' FOREIGN KEY ('' @ array_join '', '' fs @ '') ''
                        @ ''REFERENCES '' @ refTable r @ ''(''
                        @ (case refFields r of
                             RefFieldList rs \<Rightarrow> array_join '', '' rs
                           | RefFieldName x \<Rightarrow> x)
                        @ '')''
                        @ concat (whenTruthy (fkOnDelete fk) (\<lambda>a. '' ON DELETE '' @ a))
                        @ concat (whenTruthy (fkOnUpdate fk) (\<lambda>a. '' ON UPDATE '' @ a))
                        @ (if fkDeferrable fk
                           then '' DEFERRABLE INITIALLY ''
                                @ (if fkDeferred fk then ''DEFERRED'' else ''IMMEDIATE'')
                           else '''')))
           else None))"

fun foreignKeyConstraintTexts :: "(string \<times> foreign_key_spec) list \<Rightarrow> string list" where
  "foreignKeyConstraintTexts [] = []"
| "foreignKeyConstraintTexts ((name, fk) # rest) =
     (case foreignKeyConstraint name fk of None \<Rightarrow> [] | Some c \<Rightarrow> [c])
     @ foreignKeyConstraintTexts rest"

text \<open>The block under \<open>if (def.options?.constraints)\<close>.\<close>

definition optionConstraintTexts :: "table_options option \<Rightarrow> string list" where
  "optionConstraintTexts opts =
     (case optionField constraints opts of
        None \<Rightarrow> []
      | Some c \<Rightarrow>
          (case uniqueConstraints c of None \<Rightarrow> [] | Some us \<Rightarrow> uniqueConstraintTexts us)
          @ (case checkConstraints c of None \<Rightarrow> [] | Some cs \<Rightarrow> checkConstraintTexts cs)
          @ (case foreignKey c of None \<Rightarrow> [] | Some fks \<Rightarrow> foreignKeyConstraintTexts fks))"

section \<open>generateCreateTableSQL: the statement\<close>

text \<open>\<open>tableConstraints\<close> after all the pushes.\<close>

definition tableConstraintTexts :: "'v utils \<Rightarrow> 'v model_definition \<Rightarrow> string list" where
  "tableConstraintTexts u d =
     snd (processAttributes u (options d) (attributes d) ([], []))
     @ primaryKeyTableConstraints d
     @ optionConstraintTexts (options d)"

text \<open>\<open>[...columns, ...tableConstraints]\<close>.\<close>

definition allDefinitions :: "'v utils \<Rightarrow> 'v model_definition \<Rightarrow> string list" where
  "allDefinitions u d =
     fst (processAttributes u (options d) (attributes d) ([], [])) @ tableConstraintTexts u d"

text \<open>The three keywords, the empty texts removed by \<open>filter(Boolean)\<close>.\<close>

definition tableOptions :: "table_options option \<Rightarrow> string list" where
  "tableOptions opts =
     filter (\<lambda>s. s \<noteq> [])
       [if optionFlag strict opts then ''STRICT'' else '''',
        if optionFlag withoutRowid opts then ''WITHOUT ROWID'' else '''',
        if optionFlag temporary opts then ''TEMPORARY'' else '''']"

definition generateCreateTableSQL :: "'v utils \<Rightarrow> 'v model_definition \<Rightarrow> error + string" where
  "generateCreateTableSQL u d =
     (if optionField virtual (options d) \<noteq> None then generateVirtualTableSQL d
      else
        Inr (trim (''CREATE TABLE ''
                   @ (if optionFlag ifNotExists (options d) then ''IF NOT EXISTS '' else '''')
                   @ tableName d
                   @ '' ('' @ array_join '', '' (allDefinitions u d) @ '') ''
                   @ array_join '' '' (tableOptions (options d)))))"

section \<open>findAll: the query it prepares\<close>

text \<open>
  The options of \<open>findAll\<close>. \<open>whereOption\<close> is the list of entries of the
  \<open>where\<close> object in the order of \<open>Object.keys\<close>; a value \<open>None\<close> is a
  property whose value is \<open>undefined\<close>. \<open>orderOption\<close> is the array of
  \<open>[column, direction]\<close> pairs. The type of numbers is left open.
\<close>

record ('a, 'n) find_options =
  whereOption :: "(string \<times> 'a option) list option"
  orderOption :: "(string \<times> string) list option"
  limit :: "'n option"
  offset :: "'n option"

text \<open>
  The two functions imported from \<open>../utils/queryHelpers.js\<close>, which is not part
  of the sources at hand: they are parameters. A result \<open>None\<close> of
  \<open>convertValueForSQLite\<close> is \<open>null\<close>.
\<close>

record ('a, 'g, 'w) query_helpers =
  safeGet :: "(string \<times> 'a option) list \<Rightarrow> string \<Rightarrow> 'g"
  convertValueForSQLite :: "'g \<Rightarrow> 'w option"

text \<open>
  What \<open>findAll\<close> does with a number: the test \<open>n >= 0\<close> and the text of
  \<open>n\<close> in a template literal.
\<close>

record 'n number_ops =
  geZero :: "'n \<Rightarrow> bool"
  numberText :: "'n \<Rightarrow> string"

text \<open>\<open>options.where?.[key]\<close>.\<close>

definition propertyValue :: "(string \<times> 'a option) list \<Rightarrow> string \<Rightarrow> 'a option" where
  "propertyValue w key = (case map_of w key of None \<Rightarrow> None | Some v \<Rightarrow> v)"

text \<open>\<open>Object.keys(options.where).filter(key => options.where?.[key] !== undefined)\<close>.\<close>

definition whereKeys :: "(string \<times> 'a option) list \<Rightarrow> string list" where
  "whereKeys w = filter (\<lambda>key. propertyValue w key \<noteq> None) (map fst w)"

text \<open>
  The \<open>map\<close> over the kept keys, whose callback pushes on \<open>values\<close>: the
  clauses, and \<open>values\<close> afterwards.
\<close>

fun whereClauses ::
  "('a, 'g, 'w) query_helpers \<Rightarrow> (string \<times> 'a option) list \<Rightarrow> string list \<Rightarrow> 'w list
     \<Rightarrow> string list \<times> 'w list" where
  "whereClauses h w [] values = ([], values)"
| "whereClauses h w (key # keys) values =
     (case convertValueForSQLite h (safeGet h w key) of
        None \<Rightarrow>
          (case whereClauses h w keys values of
             (clauses, values') \<Rightarrow> ((key @ '' IS NULL'') # clauses, values'))
      | Some value \<Rightarrow>
          (case whereClauses h w keys (values @ [value]) of
             (clauses, values') \<Rightarrow> ((key @ '' = ?'') # clauses, values')))"

text \<open>The block under \<open>if (options?.where)\<close>: the text added to \<open>sql\<close>, and \<open>values\<close>.\<close>

definition whereSql ::
  "('a, 'g, 'w) query_helpers \<Rightarrow> ('a, 'n) find_options \<Rightarrow> string \<times> 'w list" where
  "whereSql h opts =
     (case whereOption opts of
        None \<Rightarrow> ('''', [])
      | Some w \<Rightarrow>
          (case whereClauses h w (whereKeys w) [] of
             (clauses, values) \<Rightarrow>
               (if length clauses > 0 then '' WHERE '' @ array_join '' AND '' clauses else '''',
                values)))"

text \<open>The block under \<open>if (options?.order)\<close>.\<close>

definition orderSql :: "('a, 'n) find_options \<Rightarrow> string" where
  "orderSql opts =
     (case orderOption opts of
        None \<Rightarrow> ''''
      | Some order \<Rightarrow>
          (let orderClauses =
                 map (\<lambda>(col, dir). col @ '' '' @ (if dir = ''DESC'' then ''DESC'' else ''ASC''))
                   (filter (\<lambda>(col, dir). col \<noteq> []) order)
           in if length orderClauses > 0
              then '' ORDER BY '' @ array_join '', '' orderClauses
              else ''''))"

definition limitSql :: "'n number_ops \<Rightarrow> ('a, 'n) find_options \<Rightarrow> string" where
  "limitSql n opts =
     (case limit opts of
        None \<Rightarrow> ''''
      | Some l \<Rightarrow> (if geZero n l then '' LIMIT '' @ numberText n l else ''''))"

definition offsetSql :: "'n number_ops \<Rightarrow> ('a, 'n) find_options \<Rightarrow> string" where
  "offsetSql n opts =
     (case offset opts of
        None \<Rightarrow> ''''
      | Some k \<Rightarrow> (if geZero n k then '' OFFSET '' @ numberText n k else ''''))"

text \<open>
  \<open>sql\<close> and \<open>values\<close> as \<open>findAll\<close> hands them to \<open>db.prepare\<close> and
  \<open>stmt.all\<close>, which belong to the driver.
\<close>

definition findAllQuery ::
  "('a, 'g, 'w) query_helpers \<Rightarrow> 'n number_ops \<Rightarrow> string \<Rightarrow> ('a, 'n) find_options
     \<Rightarrow> string \<times> 'w list" where
  "findAllQuery h n tableName' opts =
     (case whereSql h opts of
        (whereText, values) \<Rightarrow>
          (''SELECT * FROM '' @ tableName' @ whereText @ orderSql opts
           @ limitSql n opts @ offsetSql n opts,
           values))"

section \<open>Sample inputs\<close>

text \<open>An attribute with nothing set but its type, and options with nothing set.\<close>

definition plainAttribute :: "unit attribute_spec" where
  "plainAttribute = \<lparr>attrType = ''INTEGER'', primaryKey = False, autoIncrement = False,
     allowNull = None, unique = None, defaultValue = None, check = None, collate = None,
     generated = None, references = None, onDelete = None, onUpdate = None,
     deferrable = False, deferred = False\<rparr>"

definition plainOptions :: table_options where
  "plainOptions = \<lparr>virtual = None, underscored = False, tablePrimaryKey = None,
     constraints = None, strict = False, withoutRowid = False, temporary = False,
     ifNotExists = False\<rparr>"

text \<open>
  One instance of the functions of \<open>./utils.js\<close>, to run the generator on the
  sample inputs: it only changes the two values the samples need, \<open>STRING\<close>
  mapped to \<open>TEXT\<close> and \<open>userId\<close> in snake case.
\<close>

definition sampleUtils :: "unit utils" where
  "sampleUtils =
     \<lparr>snakeCase = (\<lambda>s. if s = ''userId'' then ''user_id'' else s),
      mapDataType = (\<lambda>t. if t = ''STRING'' then ''TEXT'' else t),
      formatDefaultValue = (\<lambda>v. ''NULL'')\<rparr>"

text \<open>A virtual table whose \<open>virtual\<close> option has no \<open>using\<close>.\<close>

definition virtualNoUsing :: "unit model_definition" where
  "virtualNoUsing = \<lparr>tableName = ''t'', attributes = [],
     options = Some (plainOptions\<lparr>virtual := Some \<lparr>usingModule = None, args = None\<rparr>\<rparr>)\<rparr>"

definition virtualFts5 :: "unit model_definition" where
  "virtualFts5 = \<lparr>tableName = ''t'', attributes = [],
     options = Some (plainOptions\<lparr>virtual :=
       Some \<lparr>usingModule = Some ''fts5'', args = Some [''title'', ''body'']\<rparr>\<rparr>)\<rparr>"

text \<open>The model of \<open>test.js\<close>, reduced to its \<open>id\<close> column.\<close>

definition usersDefinition :: "unit model_definition" where
  "usersDefinition = \<lparr>tableName = ''Users'',
     attributes = [(''id'', plainAttribute\<lparr>attrType := ''STRING'', primaryKey := True,
                                          allowNull := Some False\<rparr>)],
     options = None\<rparr>"


text \<open>A composite key on two unflagged attributes: as a table, and as a virtual table.\<close>

definition compositeDefinition :: "unit model_definition" where
  "compositeDefinition = \<lparr>tableName = ''t'',
     attributes = [(''a'', plainAttribute), (''b'', plainAttribute)],
     options = Some (plainOptions\<lparr>tablePrimaryKey := Some (PkList [''a'', ''b''])\<rparr>)\<rparr>"

definition compositeVirtual :: "unit model_definition" where
  "compositeVirtual = \<lparr>tableName = ''t'',
     attributes = [(''a'', plainAttribute), (''b'', plainAttribute)],
     options = Some (plainOptions\<lparr>tablePrimaryKey := Some (PkList [''a'', ''b'']),
                       virtual := Some \<lparr>usingModule = Some ''fts5'', args = None\<rparr>\<rparr>)\<rparr>"

text \<open>
  An \<open>underscored\<close> table whose attribute \<open>userId\<close> is flagged \<open>primaryKey\<close>
  and whose \<open>options.primaryKey\<close> is the name of the column, \<open>user_id\<close>.
\<close>

definition underscoredDefinition :: "unit model_definition" where
  "underscoredDefinition = \<lparr>tableName = ''T'',
     attributes = [(''userId'', plainAttribute\<lparr>primaryKey := True\<rparr>)],
     options = Some (plainOptions\<lparr>underscored := True,
                       tablePrimaryKey := Some (PkName ''user_id'')\<rparr>)\<rparr>"

text \<open>
  A table with three table-level foreign keys: one complete, without actions; one with
  an empty list of fields and no \<open>references\<close>; one complete, with \<open>onUpdate\<close>
  only. And the same options on a virtual table.
\<close>

definition skippedForeignKey :: foreign_key_spec where
  "skippedForeignKey = \<lparr>fkFields = Some [], fkReferences = None, fkOnDelete = None,
     fkOnUpdate = None, fkDeferrable = False, fkDeferred = False\<rparr>"

definition parentForeignKey :: foreign_key_spec where
  "parentForeignKey = \<lparr>fkFields = Some [''a''],
     fkReferences = Some \<lparr>refTable = ''p'', refFields = RefFieldList [''x'']\<rparr>,
     fkOnDelete = None, fkOnUpdate = None, fkDeferrable = False, fkDeferred = False\<rparr>"

definition updateForeignKey :: foreign_key_spec where
  "updateForeignKey = \<lparr>fkFields = Some [''a''],
     fkReferences = Some \<lparr>refTable = ''q'', refFields = RefFieldName ''y''\<rparr>,
     fkOnDelete = None, fkOnUpdate = Some ''CASCADE'', fkDeferrable = False,
     fkDeferred = False\<rparr>"

definition foreignKeyConstraints :: constraints_spec where
  "foreignKeyConstraints = \<lparr>uniqueConstraints = None, checkConstraints = None,
     foreignKey = Some [(''f1'', parentForeignKey), (''f2'', skippedForeignKey),
                        (''f3'', updateForeignKey)]\<rparr>"

definition foreignKeyDefinition :: "unit model_definition" where
  "foreignKeyDefinition = \<lparr>tableName = ''t'', attributes = [(''a'', plainAttribute)],
     options = Some (plainOptions\<lparr>constraints := Some foreignKeyConstraints\<rparr>)\<rparr>"

definition foreignKeyVirtual :: "unit model_definition" where
  "foreignKeyVirtual = \<lparr>tableName = ''t'', attributes = [(''a'', plainAttribute)],
     options = Some (plainOptions\<lparr>constraints := Some foreignKeyConstraints,
                       virtual := Some \<lparr>usingModule = Some ''fts5'', args = None\<rparr>\<rparr>)\<rparr>"

text \<open>
  One instance of the helpers, to run \<open>findAll\<close> on a sample: a value of the
  \<open>where\<close> object is \<open>null\<close> (\<open>None\<close>) or an integer, \<open>safeGet\<close> reads the
  property, and \<open>convertValueForSQLite\<close> keeps integers and gives \<open>null\<close> otherwise.
\<close>

definition sampleHelpers :: "(int option, int option option, int) query_helpers" where
  "sampleHelpers = \<lparr>safeGet = propertyValue,
     convertValueForSQLite = (\<lambda>g. case g of Some (Some i) \<Rightarrow> Some i | _ \<Rightarrow> None)\<rparr>"

text \<open>Integers as numbers, with the text of the one number the sample renders.\<close>

definition sampleNumbers :: "int number_ops" where
  "sampleNumbers = \<lparr>geZero = (\<lambda>i. i \<ge> 0), numberText = (\<lambda>i. if i = 10 then ''10'' else ''0'')\<rparr>"

text \<open>
  \<open>findAll({where: {a: 1, b: undefined, c: null}, limit: 10, offset: -1})\<close>.
\<close>

definition sampleFind :: "(int option, int) find_options" where
  "sampleFind = \<lparr>whereOption = Some [(''a'', Some (Some 1)), (''b'', None), (''c'', Some None)],
     orderOption = None, limit = Some 10, offset = Some (- 1)\<rparr>"

section \<open>The statement of the normal path\<close>

lemma dropWhile_hd: "s \<noteq> [] \<Longrightarrow> \<not> P (hd s) \<Longrightarrow> dropWhile P s = s"
  by (cases s) simp_all

lemma trim_id:
  "s \<noteq> [] \<Longrightarrow> \<not> isWhiteSpace (hd s) \<Longrightarrow> \<not> isWhiteSpace (last s) \<Longrightarrow> trim s = s"
  by (simp add: trim_def dropWhile_hd hd_rev)

lemma trim_trailing_space:
  "s \<noteq> [] \<Longrightarrow> \<not> isWhiteSpace (hd s) \<Longrightarrow> \<not> isWhiteSpace (last s) \<Longrightarrow> trim (s @ '' '') = s"
  by (simp add: trim_def dropWhile_hd hd_rev isWhiteSpace_def)

lemma tableOptions_cases:
  "tableOptions opts = [] \<or> (array_join '' '' (tableOptions opts) \<noteq> [] \<and>
     last (array_join '' '' (tableOptions opts)) \<in> {CHR ''T'', CHR ''D'', CHR ''Y''})"
  by (simp add: tableOptions_def)

lemma trim_statement:
  "trim (''CREATE TABLE '' @ a @ '') '' @ array_join '' '' (tableOptions opts)) =
   ''CREATE TABLE '' @ a @ '')''
   @ (if tableOptions opts = [] then [] else '' '' @ array_join '' '' (tableOptions opts))"
proof (cases "tableOptions opts = []")
  case True
  have "trim ((''CREATE TABLE '' @ a @ '')'') @ '' '') = ''CREATE TABLE '' @ a @ '')''"
    by (rule trim_trailing_space) (simp_all add: isWhiteSpace_def)
  with True show ?thesis by simp
next
  case False
  let ?t = "array_join '' '' (tableOptions opts)"
  from False tableOptions_cases [of opts]
  have t: "?t \<noteq> []" "last ?t \<in> {CHR ''T'', CHR ''D'', CHR ''Y''}" by auto
  have "trim (''CREATE TABLE '' @ a @ '') '' @ ?t) = ''CREATE TABLE '' @ a @ '') '' @ ?t"
    using t by (intro trim_id) (auto simp add: isWhiteSpace_def)
  with False show ?thesis by simp
qed

lemma processAttributes_eq:
  "processAttributes u opts xs (cols, tcs) =
     (cols @ map (\<lambda>(name, attr). array_join '' '' (columnParts u opts name attr)) xs,
      tcs @ concat (map (\<lambda>(name, attr). uniqueTableConstraints (columnName u opts name) attr) xs))"
  by (induction xs arbitrary: cols tcs) auto

lemma tableConstraintTexts_eq:
  "tableConstraintTexts u d =
     concat (map (\<lambda>(name, attr). uniqueTableConstraints (columnName u (options d) name) attr)
               (attributes d))
     @ primaryKeyTableConstraints d
     @ optionConstraintTexts (options d)"
  by (simp add: tableConstraintTexts_def processAttributes_eq)

lemma allDefinitions_eq:
  "allDefinitions u d =
     map (\<lambda>(name, attr). array_join '' '' (columnParts u (options d) name attr)) (attributes d)
     @ tableConstraintTexts u d"
  by (simp add: allDefinitions_def processAttributes_eq)

lemma generateCreateTableSQL_normal:
  assumes "optionField virtual (options d) = None"
  shows "generateCreateTableSQL u d =
     Inr (''CREATE TABLE ''
          @ (if optionFlag ifNotExists (options d) then ''IF NOT EXISTS '' else '''')
          @ tableName d
          @ '' ('' @ array_join '', '' (allDefinitions u d) @ '')''
          @ (if tableOptions (options d) = [] then []
             else '' '' @ array_join '' '' (tableOptions (options d))))"
proof -
  let ?a = "(if optionFlag ifNotExists (options d) then ''IF NOT EXISTS '' else '''')
          @ tableName d @ '' ('' @ array_join '', '' (allDefinitions u d)"
  have "generateCreateTableSQL u d =
      Inr (trim (''CREATE TABLE '' @ ?a @ '') '' @ array_join '' '' (tableOptions (options d))))"
    using assms by (simp add: generateCreateTableSQL_def)
  then show ?thesis
    by (simp only: trim_statement) simp
qed

section \<open>Errors\<close>

text \<open>
  C1, as the code has it. \<open>generateCreateTableSQL\<close> returns a statement for every
  definition and never throws: with a truthy \<open>options.virtual\<close> it returns the
  \<open>CREATE VIRTUAL TABLE\<close> text, and a missing \<open>using\<close> is not checked but
  rendered as the text \<open>undefined\<close>. The one \<open>throw\<close> of the module is in
  \<open>generateVirtualTableSQL\<close>, which throws exactly when it is called with a falsy
  \<open>options.virtual\<close>.
\<close>

theorem generate_never_throws:
  "(\<exists>sql. generateCreateTableSQL u d = Inr sql)
   \<and> ((\<exists>e. generateVirtualTableSQL d = Inl e) = (optionField virtual (options d) = None))
   \<and> (\<forall>v. optionField virtual (options d) = Some v \<and> usingModule v = None \<longrightarrow>
          generateCreateTableSQL u d
          = Inr (''CREATE VIRTUAL TABLE ''
                 @ (if optionFlag ifNotExists (options d) then ''IF NOT EXISTS '' else '''')
                 @ tableName d @ '' USING undefined (''
                 @ (case args v of None \<Rightarrow> [] | Some a \<Rightarrow> array_join '', '' a) @ '')''))"
proof (intro conjI allI impI)
  show "\<exists>sql. generateCreateTableSQL u d = Inr sql"
    by (auto simp add: generateCreateTableSQL_def generateVirtualTableSQL_def
        split: option.splits)
  show "(\<exists>e. generateVirtualTableSQL d = Inl e) = (optionField virtual (options d) = None)"
    by (auto simp add: generateVirtualTableSQL_def split: option.splits)
next
  fix v
  assume "optionField virtual (options d) = Some v \<and> usingModule v = None"
  then show "generateCreateTableSQL u d
          = Inr (''CREATE VIRTUAL TABLE ''
                 @ (if optionFlag ifNotExists (options d) then ''IF NOT EXISTS '' else '''')
                 @ tableName d @ '' USING undefined (''
                 @ (case args v of None \<Rightarrow> [] | Some a \<Rightarrow> array_join '', '' a) @ '')'')"
    by (auto simp add: generateCreateTableSQL_def generateVirtualTableSQL_def
        split: option.splits)
qed

theorem generate_never_throws_witness:
  "optionField virtual (options virtualNoUsing) = Some \<lparr>usingModule = None, args = None\<rparr>
   \<and> usingModule \<lparr>usingModule = None, args = None\<rparr> = None
   \<and> generateCreateTableSQL sampleUtils virtualNoUsing
       = Inr ''CREATE VIRTUAL TABLE t USING undefined ()''"
proof -
  have v: "optionField virtual (options virtualNoUsing)
      = Some \<lparr>usingModule = None, args = None\<rparr>"
    by (simp add: virtualNoUsing_def plainOptions_def optionField_def)
  have i: "\<not> optionFlag ifNotExists (options virtualNoUsing)"
    and n: "tableName virtualNoUsing = ''t''"
    by (simp_all add: virtualNoUsing_def plainOptions_def optionFlag_def)
  from generate_never_throws [of sampleUtils virtualNoUsing] v
  have "generateCreateTableSQL sampleUtils virtualNoUsing
      = Inr (''CREATE VIRTUAL TABLE ''
             @ (if optionFlag ifNotExists (options virtualNoUsing)
                then ''IF NOT EXISTS '' else '''')
             @ tableName virtualNoUsing @ '' USING undefined (''
             @ (case args \<lparr>usingModule = None, args = None\<rparr> of
                  None \<Rightarrow> [] | Some a \<Rightarrow> array_join '', '' a) @ '')'')"
    by simp
  with v i n show ?thesis by simp
qed

text \<open>
  C1 as stated fails: with \<open>options.virtual = {}\<close> (truthy, no \<open>using\<close>) the
  generator does not throw, it returns a statement with the text \<open>undefined\<close> for
  the module.
\<close>

theorem missing_using_counterexample:
  "optionField virtual (options virtualNoUsing) = Some \<lparr>usingModule = None, args = None\<rparr>
   \<and> generateCreateTableSQL sampleUtils virtualNoUsing
       = Inr ''CREATE VIRTUAL TABLE t USING undefined ()''"
  by (simp add: generateCreateTableSQL_def generateVirtualTableSQL_def virtualNoUsing_def
      plainOptions_def optionField_def optionFlag_def)

section \<open>Virtual tables\<close>

text \<open>
  C6. For a definition whose \<open>options.virtual\<close> has \<open>using = "fts5"\<close> and
  \<open>args = ["title", "body"]\<close>, and whose \<open>ifNotExists\<close> is not set, the output is
  \<open>CREATE VIRTUAL TABLE t USING fts5 (title, body)\<close> for the table name \<open>t\<close>; for
  any module, the arguments are joined by a comma and a space, and the argument list is
  empty when \<open>args\<close> is absent.
\<close>

theorem virtual_table_statement:
  assumes "options d = Some opts" and "virtual opts = Some v" and "\<not> ifNotExists opts"
  shows "(usingModule v = Some ''fts5'' \<and> args v = Some [''title'', ''body''] \<longrightarrow>
            generateCreateTableSQL u d
            = Inr (''CREATE VIRTUAL TABLE '' @ tableName d @ '' USING fts5 (title, body)''))
         \<and> (\<forall>m. usingModule v = Some m \<longrightarrow>
            generateCreateTableSQL u d
            = Inr (''CREATE VIRTUAL TABLE '' @ tableName d @ '' USING '' @ m @ '' (''
                   @ (case args v of None \<Rightarrow> [] | Some a \<Rightarrow> array_join '', '' a) @ '')''))"
  using assms
  by (auto simp add: generateCreateTableSQL_def generateVirtualTableSQL_def optionField_def
      optionFlag_def split: option.splits)

theorem virtual_table_statement_witness:
  "options virtualFts5
     = Some (plainOptions\<lparr>virtual :=
         Some \<lparr>usingModule = Some ''fts5'', args = Some [''title'', ''body'']\<rparr>\<rparr>)
   \<and> \<not> ifNotExists plainOptions
   \<and> generateCreateTableSQL sampleUtils virtualFts5
       = Inr ''CREATE VIRTUAL TABLE t USING fts5 (title, body)''"
  using virtual_table_statement [of virtualFts5
      "plainOptions\<lparr>virtual := Some \<lparr>usingModule = Some ''fts5'', args = Some [''title'', ''body'']\<rparr>\<rparr>"
      "\<lparr>usingModule = Some ''fts5'', args = Some [''title'', ''body'']\<rparr>" sampleUtils]
  by (simp add: virtualFts5_def plainOptions_def)

section \<open>The example of the specification\<close>

text \<open>
  C5. For the table \<open>Users\<close> with the one attribute
  \<open>id: {type: 'STRING', primaryKey: true, allowNull: false}\<close> and no options, the
  output is exactly \<open>CREATE TABLE Users (id TEXT PRIMARY KEY NOT NULL)\<close>, with no
  trailing white space, for every \<open>mapDataType\<close> that maps \<open>STRING\<close> to \<open>TEXT\<close>.
\<close>

theorem users_statement:
  assumes "mapDataType u ''STRING'' = ''TEXT''"
  shows "generateCreateTableSQL u usersDefinition
         = Inr ''CREATE TABLE Users (id TEXT PRIMARY KEY NOT NULL)''"
proof -
  have v: "optionField virtual (options usersDefinition) = None"
    by (simp add: usersDefinition_def optionField_def)
  have a: "allDefinitions u usersDefinition = [''id TEXT PRIMARY KEY NOT NULL'']"
    using assms
    by (simp add: allDefinitions_eq tableConstraintTexts_eq usersDefinition_def
        plainAttribute_def columnParts_def columnName_def columnClauses_def
        primaryKeyParts_def primaryKeyTruthy_def primaryKeyIsString_def notNullParts_def
        uniqueParts_def defaultParts_def checkParts_def collateParts_def generatedParts_def
        referencesParts_def whenTruthy_def uniqueTableConstraints_def
        primaryKeyTableConstraints_def optionConstraintTexts_def optionField_def
        optionFlag_def)
  have t: "tableOptions (options usersDefinition) = []"
    by (simp add: usersDefinition_def tableOptions_def optionFlag_def)
  show ?thesis
    by (simp add: generateCreateTableSQL_normal [OF v] a t)
       (simp add: usersDefinition_def optionFlag_def)
qed

theorem users_statement_witness:
  "mapDataType sampleUtils ''STRING'' = ''TEXT''
   \<and> generateCreateTableSQL sampleUtils usersDefinition
       = Inr ''CREATE TABLE Users (id TEXT PRIMARY KEY NOT NULL)''"
proof -
  have h: "mapDataType sampleUtils ''STRING'' = ''TEXT''"
    by (simp add: sampleUtils_def)
  from users_statement [OF h] h show ?thesis by simp
qed

lemmas clause_defs =
  columnParts_def columnName_def columnClauses_def
  primaryKeyParts_def primaryKeyTruthy_def primaryKeyIsString_def notNullParts_def
  uniqueParts_def defaultParts_def checkParts_def collateParts_def generatedParts_def
  referencesParts_def whenTruthy_def uniqueTableConstraints_def
  primaryKeyTableConstraints_def optionConstraintTexts_def optionField_def
  optionFlag_def attributePrimaryKey_def

lemma later_clauses_not_primary_key:
  "''PRIMARY KEY'' \<notin> set (notNullParts attr @ uniqueParts attr @ defaultParts u attr
      @ checkParts attr @ collateParts t attr @ generatedParts attr @ referencesParts attr)"
  by (auto simp add: notNullParts_def uniqueParts_def defaultParts_def checkParts_def
      collateParts_def generatedParts_def referencesParts_def whenTruthy_def
      split: option.splits unique_spec.splits bool.splits if_splits)



section \<open>Primary keys\<close>




lemma whenTruthy_hd:
  "x \<in> set (whenTruthy v (\<lambda>n. CHR ''C'' # f n)) \<Longrightarrow> hd x = CHR ''C''"
  by (cases v) (auto simp add: whenTruthy_def split: if_splits)

lemma uniqueTableConstraints_hd:
  assumes "x \<in> set (uniqueTableConstraints c attr)"
  shows "hd x = CHR ''C''"
proof (cases "unique attr")
  case None
  with assms show ?thesis by (simp add: uniqueTableConstraints_def)
next
  case (Some q)
  with assms show ?thesis
    by (cases q) (auto simp add: uniqueTableConstraints_def dest: whenTruthy_hd)
qed

lemma uniqueConstraintTexts_hd: "x \<in> set (uniqueConstraintTexts us) \<Longrightarrow> hd x = CHR ''C''"
  by (induction us rule: uniqueConstraintTexts.induct) (auto split: if_splits)

lemma checkConstraintTexts_hd: "x \<in> set (checkConstraintTexts cs) \<Longrightarrow> hd x = CHR ''C''"
  by (induction cs rule: checkConstraintTexts.induct) auto

lemma foreignKeyConstraint_hd: "foreignKeyConstraint name fk = Some x \<Longrightarrow> hd x = CHR ''C''"
  by (auto simp add: foreignKeyConstraint_def split: option.splits if_splits)

lemma foreignKeyConstraintTexts_hd:
  "x \<in> set (foreignKeyConstraintTexts fks) \<Longrightarrow> hd x = CHR ''C''"
  by (induction fks rule: foreignKeyConstraintTexts.induct)
     (auto split: option.splits dest: foreignKeyConstraint_hd [OF sym])

lemma optionConstraintTexts_hd: "x \<in> set (optionConstraintTexts opts) \<Longrightarrow> hd x = CHR ''C''"
  by (auto simp add: optionConstraintTexts_def split: option.splits
      dest: uniqueConstraintTexts_hd checkConstraintTexts_hd foreignKeyConstraintTexts_hd)

lemma named_constraints_no_primary_key:
  "count_list (concat (map (\<lambda>(name, attr). uniqueTableConstraints (f name) attr) xs))
     (''PRIMARY KEY ('' @ k) = 0"
  by (auto simp add: count_list_0_iff dest: uniqueTableConstraints_hd)

lemma option_constraints_no_primary_key:
  "count_list (optionConstraintTexts opts) (''PRIMARY KEY ('' @ k) = 0"
  by (auto simp add: count_list_0_iff dest: optionConstraintTexts_hd)

lemma composite_table_constraint:
  assumes "optionField tablePrimaryKey (options d) = Some (PkList cols)"
  shows "count_list (tableConstraintTexts u d) (''PRIMARY KEY ('' @ array_join '', '' cols @ '')'') = 1"
proof -
  have "primaryKeyTableConstraints d = [''PRIMARY KEY ('' @ array_join '', '' cols @ '')'']"
    using assms by (simp add: primaryKeyTableConstraints_def primaryKeyTruthy_def)
  then show ?thesis
    by (simp only: tableConstraintTexts_eq count_list_append named_constraints_no_primary_key
        option_constraints_no_primary_key) simp
qed

lemma composite_no_column_key:
  assumes "optionField tablePrimaryKey opts = Some (PkList cols)"
  shows "''PRIMARY KEY'' \<notin> set (columnClauses u opts attr)"
proof -
  have "primaryKeyParts opts attr = []"
    using assms by (simp add: primaryKeyParts_def primaryKeyTruthy_def primaryKeyIsString_def)
  then show ?thesis
    using later_clauses_not_primary_key [of attr u "mapDataType u (attrType attr)"]
    by (simp add: columnClauses_def)
qed

text \<open>
  C4, as the code has it. For a definition with no \<open>virtual\<close> option and
  \<open>options.primaryKey = ['a', 'b']\<close>, the statement is the \<open>CREATE TABLE\<close> text
  over the columns followed by the table constraints; exactly one table constraint is
  \<open>PRIMARY KEY (a, b)\<close>, and no column has a \<open>PRIMARY KEY\<close> clause, whatever the
  flags of the attributes.
\<close>

theorem composite_key:
  assumes "options d = Some opts" and "virtual opts = None"
    and "tablePrimaryKey opts = Some (PkList [''a'', ''b''])"
  shows "generateCreateTableSQL u d =
           Inr (''CREATE TABLE '' @ (if ifNotExists opts then ''IF NOT EXISTS '' else '''')
                @ tableName d @ '' (''
                @ array_join '', ''
                    (map (\<lambda>(name, attr). array_join '' '' (columnParts u (options d) name attr))
                       (attributes d)
                     @ tableConstraintTexts u d)
                @ '')''
                @ (if tableOptions (options d) = [] then []
                   else '' '' @ array_join '' '' (tableOptions (options d))))
       \<and> count_list (tableConstraintTexts u d) ''PRIMARY KEY (a, b)'' = 1
       \<and> (\<forall>(name, attr) \<in> set (attributes d).
             columnParts u (options d) name attr
               = [columnName u (options d) name, mapDataType u (attrType attr)]
                 @ columnClauses u (options d) attr
             \<and> ''PRIMARY KEY'' \<notin> set (columnClauses u (options d) attr))"
proof -
  have v: "optionField virtual (options d) = None"
    using assms by (simp add: optionField_def)
  have k: "optionField tablePrimaryKey (options d) = Some (PkList [''a'', ''b''])"
    using assms by (simp add: optionField_def)
  have "count_list (tableConstraintTexts u d) ''PRIMARY KEY (a, b)'' = 1"
    using composite_table_constraint [OF k, of u] by simp
  moreover have "generateCreateTableSQL u d =
           Inr (''CREATE TABLE '' @ (if ifNotExists opts then ''IF NOT EXISTS '' else '''')
                @ tableName d @ '' (''
                @ array_join '', ''
                    (map (\<lambda>(name, attr). array_join '' '' (columnParts u (options d) name attr))
                       (attributes d)
                     @ tableConstraintTexts u d)
                @ '')''
                @ (if tableOptions (options d) = [] then []
                   else '' '' @ array_join '' '' (tableOptions (options d))))"
    using assms(1) by (simp add: generateCreateTableSQL_normal [OF v] allDefinitions_eq optionFlag_def)
  ultimately show ?thesis
    using composite_no_column_key [OF k] by (auto simp add: columnParts_def)
qed

theorem composite_key_witness:
  "options compositeDefinition
     = Some (plainOptions\<lparr>tablePrimaryKey := Some (PkList [''a'', ''b''])\<rparr>)
   \<and> virtual (plainOptions\<lparr>tablePrimaryKey := Some (PkList [''a'', ''b''])\<rparr>) = None
   \<and> count_list (tableConstraintTexts sampleUtils compositeDefinition) ''PRIMARY KEY (a, b)'' = 1
   \<and> generateCreateTableSQL sampleUtils compositeDefinition
       = Inr ''CREATE TABLE t (a INTEGER, b INTEGER, PRIMARY KEY (a, b))''"
proof -
  have o: "options compositeDefinition
     = Some (plainOptions\<lparr>tablePrimaryKey := Some (PkList [''a'', ''b''])\<rparr>)"
    by (simp add: compositeDefinition_def)
  have v: "virtual (plainOptions\<lparr>tablePrimaryKey := Some (PkList [''a'', ''b''])\<rparr>) = None"
    by (simp add: plainOptions_def)
  have k: "tablePrimaryKey (plainOptions\<lparr>tablePrimaryKey := Some (PkList [''a'', ''b''])\<rparr>)
      = Some (PkList [''a'', ''b''])"
    by simp
  have t: "tableConstraintTexts sampleUtils compositeDefinition = [''PRIMARY KEY (a, b)'']"
    by (simp add: tableConstraintTexts_eq compositeDefinition_def plainAttribute_def
        plainOptions_def clause_defs)
  have p: "tableOptions (options compositeDefinition) = []"
    by (simp add: compositeDefinition_def tableOptions_def optionFlag_def plainOptions_def)
  have c: "map (\<lambda>(name, attr). array_join '' '' (columnParts sampleUtils (options compositeDefinition) name attr))
      (attributes compositeDefinition) = [''a INTEGER'', ''b INTEGER'']"
    by (simp add: compositeDefinition_def plainAttribute_def plainOptions_def sampleUtils_def
        clause_defs)
  have g: "generateCreateTableSQL sampleUtils compositeDefinition
       = Inr ''CREATE TABLE t (a INTEGER, b INTEGER, PRIMARY KEY (a, b))''"
    using composite_key [OF o v k, of sampleUtils] unfolding c t p
    by (simp add: compositeDefinition_def plainOptions_def)
  have n: "count_list (tableConstraintTexts sampleUtils compositeDefinition) ''PRIMARY KEY (a, b)'' = 1"
    using composite_key [OF o v k, of sampleUtils] by blast
  from o v n g show ?thesis by blast
qed

text \<open>
  C4 as stated fails on a virtual table: with \<open>options.primaryKey = ['a', 'b']\<close>,
  neither attribute flagged, and \<open>options.virtual\<close> set, the output has no
  \<open>PRIMARY KEY (a, b)\<close> constraint.
\<close>

theorem composite_virtual_counterexample:
  "optionField tablePrimaryKey (options compositeVirtual) = Some (PkList [''a'', ''b''])
   \<and> \<not> attributePrimaryKey compositeVirtual ''a''
   \<and> \<not> attributePrimaryKey compositeVirtual ''b''
   \<and> generateCreateTableSQL sampleUtils compositeVirtual
       = Inr ''CREATE VIRTUAL TABLE t USING fts5 ()''"
  by (simp add: generateCreateTableSQL_def generateVirtualTableSQL_def compositeVirtual_def
      plainOptions_def plainAttribute_def optionField_def optionFlag_def
      attributePrimaryKey_def)

text \<open>
  C3 at an input where the code breaks it. With \<open>underscored\<close>, the attribute
  \<open>userId\<close> flagged \<open>primaryKey\<close> and \<open>options.primaryKey = 'user_id'\<close>, the
  column \<open>user_id\<close> gets its \<open>PRIMARY KEY\<close> clause, and the table constraint
  \<open>PRIMARY KEY (user_id)\<close> is added as well: the test "not already defined at
  column level" looks the option up among the attribute names, not the column names.
  This holds for every \<open>snakeCase\<close> that maps \<open>userId\<close> to \<open>user_id\<close>.
\<close>

theorem underscored_duplicate_key:
  assumes "snakeCase u ''userId'' = ''user_id''"
  shows "generateCreateTableSQL u underscoredDefinition
         = Inr (''CREATE TABLE T (user_id '' @ mapDataType u ''INTEGER''
                @ '' PRIMARY KEY, PRIMARY KEY (user_id))'')"
proof -
  have v: "optionField virtual (options underscoredDefinition) = None"
    by (simp add: underscoredDefinition_def optionField_def plainOptions_def)
  have a: "allDefinitions u underscoredDefinition
      = [''user_id '' @ mapDataType u ''INTEGER'' @ '' PRIMARY KEY'', ''PRIMARY KEY (user_id)'']"
    using assms
    by (simp add: allDefinitions_eq tableConstraintTexts_eq underscoredDefinition_def
        plainAttribute_def plainOptions_def clause_defs)
  have t: "tableOptions (options underscoredDefinition) = []"
    by (simp add: underscoredDefinition_def tableOptions_def optionFlag_def plainOptions_def)
  show ?thesis
    by (simp add: generateCreateTableSQL_normal [OF v] a t)
       (simp add: underscoredDefinition_def optionFlag_def plainOptions_def)
qed

theorem underscored_duplicate_key_witness:
  "snakeCase sampleUtils ''userId'' = ''user_id''
   \<and> generateCreateTableSQL sampleUtils underscoredDefinition
       = Inr ''CREATE TABLE T (user_id INTEGER PRIMARY KEY, PRIMARY KEY (user_id))''"
proof -
  have h: "snakeCase sampleUtils ''userId'' = ''user_id''"
    by (simp add: sampleUtils_def)
  from underscored_duplicate_key [OF h] h show ?thesis
    by (simp add: sampleUtils_def)
qed

section \<open>The shape of the statement\<close>

lemma tableOptions_no_parenthesis:
  "CHR ''('' \<notin> set (array_join '' '' (tableOptions opts))
   \<and> CHR '')'' \<notin> set (array_join '' '' (tableOptions opts))"
  by (simp add: tableOptions_def)

text \<open>
  C8. For a definition with no \<open>virtual\<close> option, the output begins with
  \<open>CREATE TABLE\<close>, and it has one parenthesized clause list: after the optional
  \<open>IF NOT EXISTS\<close> and the table name come an opening parenthesis, all the column
  definitions and table constraints joined by a comma and a space, and the closing
  parenthesis; what follows are the table keywords, without any parenthesis.
\<close>

theorem create_table_shape:
  assumes "optionField virtual (options d) = None"
  shows "(\<exists>rest. generateCreateTableSQL u d = Inr (''CREATE TABLE'' @ rest))
       \<and> (\<exists>keywords.
             generateCreateTableSQL u d
               = Inr (''CREATE TABLE ''
                      @ (if optionFlag ifNotExists (options d) then ''IF NOT EXISTS '' else '''')
                      @ tableName d
                      @ '' ('' @ array_join '', '' (allDefinitions u d) @ '')''
                      @ keywords)
             \<and> CHR ''('' \<notin> set keywords \<and> CHR '')'' \<notin> set keywords)"
proof -
  let ?k = "if tableOptions (options d) = [] then []
            else '' '' @ array_join '' '' (tableOptions (options d))"
  have g: "generateCreateTableSQL u d
      = Inr (''CREATE TABLE ''
             @ (if optionFlag ifNotExists (options d) then ''IF NOT EXISTS '' else '''')
             @ tableName d
             @ '' ('' @ array_join '', '' (allDefinitions u d) @ '')'' @ ?k)"
    by (rule generateCreateTableSQL_normal [OF assms])
  have k: "CHR ''('' \<notin> set ?k \<and> CHR '')'' \<notin> set ?k"
    using tableOptions_no_parenthesis [of "options d"] by simp
  from g have "\<exists>rest. generateCreateTableSQL u d = Inr (''CREATE TABLE'' @ rest)"
    by simp
  with g k show ?thesis by blast
qed

theorem create_table_shape_witness:
  "optionField virtual (options usersDefinition) = None
   \<and> (\<exists>rest. generateCreateTableSQL sampleUtils usersDefinition = Inr (''CREATE TABLE'' @ rest))"
proof -
  have h: "optionField virtual (options usersDefinition) = None"
    by (simp add: usersDefinition_def optionField_def)
  from create_table_shape [OF h, of sampleUtils] h show ?thesis by blast
qed

section \<open>Table-level foreign keys\<close>

lemma foreignKeyConstraintTexts_append:
  "foreignKeyConstraintTexts (xs @ ys)
   = foreignKeyConstraintTexts xs @ foreignKeyConstraintTexts ys"
  by (induction xs rule: foreignKeyConstraintTexts.induct) simp_all

lemma foreign_key_skipped:
  assumes "fkFields fk = None \<or> fkFields fk = Some [] \<or> fkReferences fk = None"
  shows "foreignKeyConstraint name fk = None"
  using assms by (auto simp add: foreignKeyConstraint_def split: option.splits)

lemma foreign_key_skipped_texts:
  assumes "foreignKeyConstraint name fk = None"
  shows "foreignKeyConstraintTexts (xs @ (name, fk) # ys) = foreignKeyConstraintTexts (xs @ ys)"
  using assms by (simp add: foreignKeyConstraintTexts_append)

lemma foreign_key_skipped_statement:
  assumes "foreignKeyConstraint name fk = None"
    and "options d = Some opts" and "constraints opts = Some c"
    and "foreignKey c = Some (xs @ (name, fk) # ys)"
  shows "generateCreateTableSQL u d
         = generateCreateTableSQL u
             (d\<lparr>options := Some (opts\<lparr>constraints := Some (c\<lparr>foreignKey := Some (xs @ ys)\<rparr>)\<rparr>)\<rparr>)"
proof -
  let ?d = "d\<lparr>options := Some (opts\<lparr>constraints := Some (c\<lparr>foreignKey := Some (xs @ ys)\<rparr>)\<rparr>)\<rparr>"
  have o: "optionConstraintTexts (options ?d) = optionConstraintTexts (options d)"
    using assms
    by (simp add: optionConstraintTexts_def optionField_def foreign_key_skipped_texts)
  have ap: "attributePrimaryKey ?d = attributePrimaryKey d"
    by (simp add: attributePrimaryKey_def fun_eq_iff)
  have p: "primaryKeyTableConstraints ?d = primaryKeyTableConstraints d"
    using assms(2)
    by (simp add: primaryKeyTableConstraints_def primaryKeyTruthy_def optionField_def ap
        split: option.splits primary_key_option.splits)
  have un: "columnName u (options ?d) name' = columnName u (options d) name'" for name'
    using assms(2) by (simp add: columnName_def optionFlag_def)
  have cc: "columnClauses u (options ?d) attr = columnClauses u (options d) attr" for attr
    using assms(2)
    by (simp add: columnClauses_def primaryKeyParts_def primaryKeyTruthy_def
        primaryKeyIsString_def optionField_def)
  have cp: "columnParts u (options ?d) name' attr = columnParts u (options d) name' attr"
    for name' attr
    by (simp only: columnParts_def un cc)
  have a: "allDefinitions u ?d = allDefinitions u d"
    by (simp only: allDefinitions_eq tableConstraintTexts_eq o p cp un) simp
  have t: "tableOptions (options ?d) = tableOptions (options d)"
    using assms(2) by (simp add: tableOptions_def optionFlag_def)
  have v: "optionField virtual (options ?d) = optionField virtual (options d)"
    using assms(2) by (simp add: optionField_def)
  have i: "optionFlag ifNotExists (options ?d) = optionFlag ifNotExists (options d)"
    using assms(2) by (simp add: optionFlag_def)
  have n: "tableName ?d = tableName d"
    by simp
  have vt: "generateVirtualTableSQL ?d = generateVirtualTableSQL d"
    by (simp only: generateVirtualTableSQL_def v i n)
  show ?thesis
    by (simp only: generateCreateTableSQL_def a t v vt i n)
qed

lemma foreign_key_text:
  assumes "fkFields fk = Some fs" and "fs \<noteq> []" and "fkReferences fk = Some r"
  shows "foreignKeyConstraint name fk =
     Some (''CONSTRAINT '' @ name @ '' FOREIGN KEY ('' @ array_join '', '' fs
           @ '') REFERENCES '' @ refTable r @ ''(''
           @ (case refFields r of RefFieldList rs \<Rightarrow> array_join '', '' rs | RefFieldName x \<Rightarrow> x)
           @ '')''
           @ (if truthy (fkOnDelete fk) then '' ON DELETE '' @ the (fkOnDelete fk) else [])
           @ (if truthy (fkOnUpdate fk) then '' ON UPDATE '' @ the (fkOnUpdate fk) else [])
           @ (if fkDeferrable fk
              then '' DEFERRABLE INITIALLY '' @ (if fkDeferred fk then ''DEFERRED'' else ''IMMEDIATE'')
              else []))"
  using assms
  by (simp add: foreignKeyConstraint_def whenTruthy_def truthy_def split: option.splits)

lemma foreign_key_no_trailing_space:
  assumes "foreignKeyConstraint name fk = Some c"
    and "\<forall>a. fkOnDelete fk = Some a \<longrightarrow> a = [] \<or> \<not> isWhiteSpace (last a)"
    and "\<forall>a. fkOnUpdate fk = Some a \<longrightarrow> a = [] \<or> \<not> isWhiteSpace (last a)"
  shows "c \<noteq> [] \<and> \<not> isWhiteSpace (last c)"
proof -
  from assms(1) obtain fs r where f: "fkFields fk = Some fs" "fs \<noteq> []" "fkReferences fk = Some r"
    by (auto simp add: foreignKeyConstraint_def split: option.splits if_splits)
  note t = foreign_key_text [OF f, of name]
  show ?thesis
  proof (cases "fkDeferrable fk")
    case True
    with t assms(1) show ?thesis by (auto simp add: isWhiteSpace_def)
  next
    case d: False
    show ?thesis
    proof (cases "truthy (fkOnUpdate fk)")
      case True
      then obtain a where "fkOnUpdate fk = Some a" "a \<noteq> []"
        by (auto simp add: truthy_def split: option.splits)
      with t assms(1,3) d show ?thesis by (auto simp add: truthy_def)
    next
      case up: False
      show ?thesis
      proof (cases "truthy (fkOnDelete fk)")
        case True
        then obtain a where "fkOnDelete fk = Some a" "a \<noteq> []"
          by (auto simp add: truthy_def split: option.splits)
        with t assms(1,2) d up show ?thesis by (auto simp add: truthy_def)
      next
        case False
        with t assms(1) d up show ?thesis by (auto simp add: isWhiteSpace_def)
      qed
    qed
  qed
qed

lemma foreignKeyConstraintTexts_eq:
  "foreignKeyConstraintTexts fks
   = List.map_filter (\<lambda>(name, fk). foreignKeyConstraint name fk) fks"
  by (induction fks rule: foreignKeyConstraintTexts.induct)
     (simp_all split: option.splits)

lemma foreign_key_kept_statement:
  assumes "options d = Some opts" and "virtual opts = None" and "constraints opts = Some c"
    and "foreignKey c = Some (xs @ (name, fk) # ys)"
    and "foreignKeyConstraint name fk = Some t"
  shows "generateCreateTableSQL u d =
     Inr (''CREATE TABLE '' @ (if ifNotExists opts then ''IF NOT EXISTS '' else '''')
          @ tableName d @ '' (''
          @ array_join '', ''
              (map (\<lambda>(name, attr). array_join '' '' (columnParts u (options d) name attr))
                 (attributes d)
               @ concat (map (\<lambda>(name, attr).
                                 uniqueTableConstraints (columnName u (options d) name) attr)
                           (attributes d))
               @ primaryKeyTableConstraints d
               @ (case uniqueConstraints c of None \<Rightarrow> [] | Some us \<Rightarrow> uniqueConstraintTexts us)
               @ (case checkConstraints c of None \<Rightarrow> [] | Some cs \<Rightarrow> checkConstraintTexts cs)
               @ List.map_filter (\<lambda>(name, fk). foreignKeyConstraint name fk) xs
               @ [t]
               @ List.map_filter (\<lambda>(name, fk). foreignKeyConstraint name fk) ys)
          @ '')''
          @ (if tableOptions (options d) = [] then []
             else '' '' @ array_join '' '' (tableOptions (options d))))"
proof -
  have v: "optionField virtual (options d) = None"
    using assms(1,2) by (simp add: optionField_def)
  have f: "foreignKeyConstraintTexts (xs @ (name, fk) # ys)
      = foreignKeyConstraintTexts xs @ [t] @ foreignKeyConstraintTexts ys"
    using assms(5) by (simp add: foreignKeyConstraintTexts_append)
  have o: "optionConstraintTexts (options d)
      = (case uniqueConstraints c of None \<Rightarrow> [] | Some us \<Rightarrow> uniqueConstraintTexts us)
        @ (case checkConstraints c of None \<Rightarrow> [] | Some cs \<Rightarrow> checkConstraintTexts cs)
        @ List.map_filter (\<lambda>(name, fk). foreignKeyConstraint name fk) xs
        @ [t]
        @ List.map_filter (\<lambda>(name, fk). foreignKeyConstraint name fk) ys"
    using assms(1,3,4)
    by (simp add: optionConstraintTexts_def optionField_def f
        foreignKeyConstraintTexts_eq [symmetric])
  have i: "optionFlag ifNotExists (options d) = ifNotExists opts"
    using assms(1) by (simp add: optionFlag_def)
  show ?thesis
    by (simp only: generateCreateTableSQL_normal [OF v] allDefinitions_eq
        tableConstraintTexts_eq o i append_assoc)
qed

lemma foreign_key_kept:
  assumes "fkFields fk = Some fs" and "fs \<noteq> []" and "fkReferences fk = Some r"
  shows "let text =
            ''CONSTRAINT '' @ name @ '' FOREIGN KEY ('' @ array_join '', '' fs
            @ '') REFERENCES '' @ refTable r @ ''(''
            @ (case refFields r of
                 RefFieldList rs \<Rightarrow> array_join '', '' rs
               | RefFieldName x \<Rightarrow> x)
            @ '')''
            @ (if truthy (fkOnDelete fk) then '' ON DELETE '' @ the (fkOnDelete fk) else [])
            @ (if truthy (fkOnUpdate fk) then '' ON UPDATE '' @ the (fkOnUpdate fk) else [])
            @ (if fkDeferrable fk
               then '' DEFERRABLE INITIALLY ''
                    @ (if fkDeferred fk then ''DEFERRED'' else ''IMMEDIATE'')
               else [])
         in foreignKeyConstraint name fk = Some text
            \<and> (\<forall>d opts c.
                  options d = Some opts \<and> virtual opts = None \<and> constraints opts = Some c
                  \<and> foreignKey c = Some (xs @ (name, fk) # ys) \<longrightarrow>
                  generateCreateTableSQL u d =
                    Inr (''CREATE TABLE ''
                         @ (if ifNotExists opts then ''IF NOT EXISTS '' else '''')
                         @ tableName d @ '' (''
                         @ array_join '', ''
                             (map (\<lambda>(name, attr).
                                     array_join '' '' (columnParts u (options d) name attr))
                                (attributes d)
                              @ concat (map (\<lambda>(name, attr).
                                  uniqueTableConstraints (columnName u (options d) name) attr)
                                  (attributes d))
                              @ primaryKeyTableConstraints d
                              @ (case uniqueConstraints c of
                                   None \<Rightarrow> [] | Some us \<Rightarrow> uniqueConstraintTexts us)
                              @ (case checkConstraints c of
                                   None \<Rightarrow> [] | Some cs \<Rightarrow> checkConstraintTexts cs)
                              @ List.map_filter (\<lambda>(name, fk). foreignKeyConstraint name fk) xs
                              @ [text]
                              @ List.map_filter (\<lambda>(name, fk). foreignKeyConstraint name fk) ys)
                         @ '')''
                         @ (if tableOptions (options d) = [] then []
                            else '' '' @ array_join '' '' (tableOptions (options d)))))"
proof -
  note t = foreign_key_text [OF assms, of name]
  have g: "\<forall>d opts c.
      options d = Some opts \<and> virtual opts = None \<and> constraints opts = Some c
      \<and> foreignKey c = Some (xs @ (name, fk) # ys) \<longrightarrow>
      generateCreateTableSQL u d =
        Inr (''CREATE TABLE ''
             @ (if ifNotExists opts then ''IF NOT EXISTS '' else '''')
             @ tableName d @ '' (''
             @ array_join '', ''
                 (map (\<lambda>(name, attr).
                         array_join '' '' (columnParts u (options d) name attr))
                    (attributes d)
                  @ concat (map (\<lambda>(name, attr).
                      uniqueTableConstraints (columnName u (options d) name) attr)
                      (attributes d))
                  @ primaryKeyTableConstraints d
                  @ (case uniqueConstraints c of
                       None \<Rightarrow> [] | Some us \<Rightarrow> uniqueConstraintTexts us)
                  @ (case checkConstraints c of
                       None \<Rightarrow> [] | Some cs \<Rightarrow> checkConstraintTexts cs)
                  @ List.map_filter (\<lambda>(name, fk). foreignKeyConstraint name fk) xs
                  @ [w]
                  @ List.map_filter (\<lambda>(name, fk). foreignKeyConstraint name fk) ys)
             @ '')''
             @ (if tableOptions (options d) = [] then []
                else '' '' @ array_join '' '' (tableOptions (options d))))"
    if "foreignKeyConstraint name fk = Some w" for w
    by (intro allI impI, elim conjE, rule foreign_key_kept_statement [OF _ _ _ _ that])
  show ?thesis
    unfolding Let_def by (intro conjI t g [OF t])
qed

text \<open>
  C7, as the code has it. An entry of \<open>constraints.foreignKey\<close> whose \<open>fields\<close> is
  not an array or is empty, or whose \<open>references\<close> is missing, is skipped: it adds no
  constraint, and the generator returns, without an error, the statement it returns
  for the definition without the entry. An entry with fields and \<open>references\<close> gives
  the constraint text in which a missing \<open>onDelete\<close> or \<open>onUpdate\<close> leaves nothing
  behind, and, for a definition with no \<open>virtual\<close> option, this text stands in the
  output, after the constraints of the entries before it and before those of the
  entries after it. The text does not end in white space, unless an action that is
  given does.
\<close>

theorem foreign_key_entries:
  "(fkFields fk = None \<or> fkFields fk = Some [] \<or> fkReferences fk = None \<longrightarrow>
      foreignKeyConstraint name fk = None
      \<and> foreignKeyConstraintTexts (xs @ (name, fk) # ys) = foreignKeyConstraintTexts (xs @ ys)
      \<and> (\<forall>d opts c.
            options d = Some opts \<and> constraints opts = Some c
            \<and> foreignKey c = Some (xs @ (name, fk) # ys) \<longrightarrow>
            (\<exists>sql. generateCreateTableSQL u d = Inr sql)
            \<and> generateCreateTableSQL u d
                = generateCreateTableSQL u
                    (d\<lparr>options :=
                         Some (opts\<lparr>constraints := Some (c\<lparr>foreignKey := Some (xs @ ys)\<rparr>)\<rparr>)\<rparr>)))
   \<and> (\<forall>fs r. fkFields fk = Some fs \<and> fs \<noteq> [] \<and> fkReferences fk = Some r \<longrightarrow>
       (let text =
                 ''CONSTRAINT '' @ name @ '' FOREIGN KEY ('' @ array_join '', '' fs
                 @ '') REFERENCES '' @ refTable r @ ''(''
                 @ (case refFields r of
                      RefFieldList rs \<Rightarrow> array_join '', '' rs
                    | RefFieldName x \<Rightarrow> x)
                 @ '')''
                 @ (if truthy (fkOnDelete fk) then '' ON DELETE '' @ the (fkOnDelete fk) else [])
                 @ (if truthy (fkOnUpdate fk) then '' ON UPDATE '' @ the (fkOnUpdate fk) else [])
                 @ (if fkDeferrable fk
                    then '' DEFERRABLE INITIALLY ''
                         @ (if fkDeferred fk then ''DEFERRED'' else ''IMMEDIATE'')
                    else [])
              in foreignKeyConstraint name fk = Some text
                 \<and> (\<forall>d opts c.
                       options d = Some opts \<and> virtual opts = None \<and> constraints opts = Some c
                       \<and> foreignKey c = Some (xs @ (name, fk) # ys) \<longrightarrow>
                       generateCreateTableSQL u d =
                         Inr (''CREATE TABLE ''
                              @ (if ifNotExists opts then ''IF NOT EXISTS '' else '''')
                              @ tableName d @ '' (''
                              @ array_join '', ''
                                  (map (\<lambda>(name, attr).
                                          array_join '' '' (columnParts u (options d) name attr))
                                     (attributes d)
                                   @ concat (map (\<lambda>(name, attr).
                                       uniqueTableConstraints (columnName u (options d) name) attr)
                                       (attributes d))
                                   @ primaryKeyTableConstraints d
                                   @ (case uniqueConstraints c of
                                        None \<Rightarrow> [] | Some us \<Rightarrow> uniqueConstraintTexts us)
                                   @ (case checkConstraints c of
                                        None \<Rightarrow> [] | Some cs \<Rightarrow> checkConstraintTexts cs)
                                   @ List.map_filter (\<lambda>(name, fk). foreignKeyConstraint name fk) xs
                                   @ [text]
                                   @ List.map_filter (\<lambda>(name, fk). foreignKeyConstraint name fk) ys)
                              @ '')''
                              @ (if tableOptions (options d) = [] then []
                                 else '' '' @ array_join '' '' (tableOptions (options d)))))))
   \<and> (\<forall>c. foreignKeyConstraint name fk = Some c
          \<and> (\<forall>a. fkOnDelete fk = Some a \<longrightarrow> a = [] \<or> \<not> isWhiteSpace (last a))
          \<and> (\<forall>a. fkOnUpdate fk = Some a \<longrightarrow> a = [] \<or> \<not> isWhiteSpace (last a)) \<longrightarrow>
          c \<noteq> [] \<and> \<not> isWhiteSpace (last c))"
  (is "?skipped \<and> ?kept \<and> ?trimmed")
proof (intro conjI)
  show ?skipped
  proof (intro conjI impI allI)
    assume s: "fkFields fk = None \<or> fkFields fk = Some [] \<or> fkReferences fk = None"
    show n: "foreignKeyConstraint name fk = None"
      by (rule foreign_key_skipped [OF s])
    show "foreignKeyConstraintTexts (xs @ (name, fk) # ys) = foreignKeyConstraintTexts (xs @ ys)"
      by (rule foreign_key_skipped_texts [OF n])
    fix d :: "'a model_definition" and opts c
    assume d: "options d = Some opts \<and> constraints opts = Some c
              \<and> foreignKey c = Some (xs @ (name, fk) # ys)"
    show "\<exists>sql. generateCreateTableSQL u d = Inr sql"
      by (auto simp add: generateCreateTableSQL_def generateVirtualTableSQL_def
          split: option.splits)
    from d show "generateCreateTableSQL u d
          = generateCreateTableSQL u
              (d\<lparr>options := Some (opts\<lparr>constraints := Some (c\<lparr>foreignKey := Some (xs @ ys)\<rparr>)\<rparr>)\<rparr>)"
      by (intro foreign_key_skipped_statement [OF n]) simp_all
  qed
  show ?kept
    by (intro allI impI, elim conjE, rule foreign_key_kept)
  show ?trimmed
  proof (intro allI impI)
    fix c
    assume "foreignKeyConstraint name fk = Some c
          \<and> (\<forall>a. fkOnDelete fk = Some a \<longrightarrow> a = [] \<or> \<not> isWhiteSpace (last a))
          \<and> (\<forall>a. fkOnUpdate fk = Some a \<longrightarrow> a = [] \<or> \<not> isWhiteSpace (last a))"
    then show "c \<noteq> [] \<and> \<not> isWhiteSpace (last c)"
      by (intro foreign_key_no_trailing_space [of name fk c]) blast+
  qed
qed

theorem foreign_key_entries_witness:
  "fkFields skippedForeignKey = Some []
   \<and> foreignKeyConstraint ''f2'' skippedForeignKey = None
   \<and> fkFields updateForeignKey = Some [''a'']
   \<and> fkOnDelete updateForeignKey = None
   \<and> foreignKeyConstraint ''f3'' updateForeignKey
       = Some ''CONSTRAINT f3 FOREIGN KEY (a) REFERENCES q(y) ON UPDATE CASCADE''
   \<and> virtual (plainOptions\<lparr>constraints := Some foreignKeyConstraints\<rparr>) = None
   \<and> generateCreateTableSQL sampleUtils foreignKeyDefinition
       = Inr (''CREATE TABLE t (a INTEGER, CONSTRAINT f1 FOREIGN KEY (a) REFERENCES p(x), ''
              @ ''CONSTRAINT f3 FOREIGN KEY (a) REFERENCES q(y) ON UPDATE CASCADE)'')"
proof -
  let ?o = "plainOptions\<lparr>constraints := Some foreignKeyConstraints\<rparr>"
  have s: "fkFields skippedForeignKey = Some []"
    by (simp add: skippedForeignKey_def)
  have n: "foreignKeyConstraint ''f2'' skippedForeignKey = None"
    using foreign_key_entries [of skippedForeignKey "''f2''"] s by blast
  have k: "fkFields updateForeignKey = Some [''a'']" "[''a''] \<noteq> []"
    "fkReferences updateForeignKey = Some \<lparr>refTable = ''q'', refFields = RefFieldName ''y''\<rparr>"
    "fkOnDelete updateForeignKey = None"
    by (simp_all add: updateForeignKey_def)
  have p: "foreignKeyConstraint ''f1'' parentForeignKey
      = Some ''CONSTRAINT f1 FOREIGN KEY (a) REFERENCES p(x)''"
    by (simp add: foreignKeyConstraint_def parentForeignKey_def whenTruthy_def)
  have v: "virtual ?o = None"
    by (simp add: plainOptions_def)
  have d: "options foreignKeyDefinition = Some ?o \<and> virtual ?o = None
      \<and> constraints ?o = Some foreignKeyConstraints
      \<and> foreignKey foreignKeyConstraints
          = Some ([(''f1'', parentForeignKey), (''f2'', skippedForeignKey)]
                  @ (''f3'', updateForeignKey) # [])"
    by (simp add: foreignKeyDefinition_def foreignKeyConstraints_def plainOptions_def)
  note e = foreign_key_entries [of updateForeignKey "''f3''"
      "[(''f1'', parentForeignKey), (''f2'', skippedForeignKey)]" "[]" sampleUtils,
      THEN conjunct2, THEN conjunct1, rule_format, OF conjI [OF k(1) conjI [OF k(2) k(3)]],
      unfolded Let_def]
  have t: "foreignKeyConstraint ''f3'' updateForeignKey
       = Some ''CONSTRAINT f3 FOREIGN KEY (a) REFERENCES q(y) ON UPDATE CASCADE''"
    using e [THEN conjunct1] by (simp add: updateForeignKey_def truthy_def)
  have g: "generateCreateTableSQL sampleUtils foreignKeyDefinition
       = Inr (''CREATE TABLE t (a INTEGER, CONSTRAINT f1 FOREIGN KEY (a) REFERENCES p(x), ''
              @ ''CONSTRAINT f3 FOREIGN KEY (a) REFERENCES q(y) ON UPDATE CASCADE)'')"
    using e [THEN conjunct2, rule_format, OF d]
    by (simp add: n p)
       (simp add: foreignKeyDefinition_def foreignKeyConstraints_def plainAttribute_def
         plainOptions_def sampleUtils_def tableOptions_def updateForeignKey_def truthy_def
         clause_defs)
  from s n k(1,4) t v g show ?thesis by blast
qed

text \<open>
  C7 as stated fails on a virtual table: the entry \<open>f1\<close> has fields and
  \<open>references\<close> and no \<open>onDelete\<close> or \<open>onUpdate\<close>, and the output has no
  constraint for it at all.
\<close>

theorem foreign_key_virtual_counterexample:
  "optionField constraints (options foreignKeyVirtual) = Some foreignKeyConstraints
   \<and> foreignKey foreignKeyConstraints
       = Some [(''f1'', parentForeignKey), (''f2'', skippedForeignKey),
               (''f3'', updateForeignKey)]
   \<and> fkFields parentForeignKey = Some [''a'']
   \<and> fkReferences parentForeignKey
       = Some \<lparr>refTable = ''p'', refFields = RefFieldList [''x'']\<rparr>
   \<and> fkOnDelete parentForeignKey = None
   \<and> fkOnUpdate parentForeignKey = None
   \<and> generateCreateTableSQL sampleUtils foreignKeyVirtual
       = Inr ''CREATE VIRTUAL TABLE t USING fts5 ()''"
  by (simp add: generateCreateTableSQL_def generateVirtualTableSQL_def foreignKeyVirtual_def
      foreignKeyConstraints_def parentForeignKey_def plainOptions_def optionField_def
      optionFlag_def)

section \<open>findAll\<close>

lemma whereClauses_eq:
  "whereClauses h w keys vs =
     (map (\<lambda>key. if convertValueForSQLite h (safeGet h w key) = None
                  then key @ '' IS NULL'' else key @ '' = ?'') keys,
      vs @ List.map_filter (\<lambda>key. convertValueForSQLite h (safeGet h w key)) keys)"
  by (induction keys arbitrary: vs) (auto split: option.splits)

lemma propertyValue_entry:
  assumes "distinct (map fst w)" and "(key, v) \<in> set w"
  shows "propertyValue w key = v"
  using assms by (simp add: propertyValue_def)

lemma whereKeys_entries:
  assumes "distinct (map fst w)"
  shows "whereKeys w = map fst (filter (\<lambda>(key, v). v \<noteq> None) w)"
proof -
  have "filter ((\<lambda>key. propertyValue w key \<noteq> None) \<circ> fst) w = filter (\<lambda>(key, v). v \<noteq> None) w"
    by (rule filter_cong) (auto simp add: propertyValue_entry [OF assms])
  then show ?thesis
    by (simp add: whereKeys_def filter_map)
qed

lemma whereSql_eq:
  "whereSql h opts =
     (case whereOption opts of
        None \<Rightarrow> ([], [])
      | Some w \<Rightarrow>
          (if whereKeys w = [] then []
           else '' WHERE '' @ array_join '' AND ''
                  (map (\<lambda>key. if convertValueForSQLite h (safeGet h w key) = None
                               then key @ '' IS NULL'' else key @ '' = ?'') (whereKeys w)),
           List.map_filter (\<lambda>key. convertValueForSQLite h (safeGet h w key)) (whereKeys w)))"
  by (simp add: whereSql_def whereClauses_eq split: option.splits)

text \<open>
  C10. In \<open>findAll\<close>, the keys of the \<open>WHERE\<close> clause are those of the entries of
  \<open>where\<close> whose value is not \<open>undefined\<close> (the keys of an object are distinct);
  a kept key whose converted value is \<open>null\<close> gives \<open>key IS NULL\<close> and no bound
  value, any other gives \<open>key = ?\<close> and its converted value; without a kept key, or
  without \<open>where\<close>, the query has no \<open>WHERE\<close> clause; \<open>LIMIT\<close> and
  \<open>OFFSET\<close> are added exactly when the option is defined and \<open>>= 0\<close>.
\<close>

theorem find_all_query:
  "(\<forall>w. whereOption opts = Some w \<and> distinct (map fst w) \<longrightarrow>
        whereKeys w = map fst (filter (\<lambda>(key, v). v \<noteq> None) w))
   \<and> findAllQuery h n t opts =
       (''SELECT * FROM '' @ t
        @ (case whereOption opts of
             None \<Rightarrow> []
           | Some w \<Rightarrow>
               (if whereKeys w = [] then []
                else '' WHERE '' @ array_join '' AND ''
                       (map (\<lambda>key. if convertValueForSQLite h (safeGet h w key) = None
                                    then key @ '' IS NULL'' else key @ '' = ?'')
                          (whereKeys w))))
        @ orderSql opts
        @ (case limit opts of
             None \<Rightarrow> []
           | Some l \<Rightarrow> (if geZero n l then '' LIMIT '' @ numberText n l else []))
        @ (case offset opts of
             None \<Rightarrow> []
           | Some k \<Rightarrow> (if geZero n k then '' OFFSET '' @ numberText n k else [])),
        (case whereOption opts of
           None \<Rightarrow> []
         | Some w \<Rightarrow>
             List.map_filter (\<lambda>key. convertValueForSQLite h (safeGet h w key)) (whereKeys w)))"
proof (intro conjI allI impI)
  fix w
  assume "whereOption opts = Some w \<and> distinct (map fst w)"
  then show "whereKeys w = map fst (filter (\<lambda>(key, v). v \<noteq> None) w)"
    by (simp add: whereKeys_entries)
next
  show "findAllQuery h n t opts =
       (''SELECT * FROM '' @ t
        @ (case whereOption opts of
             None \<Rightarrow> []
           | Some w \<Rightarrow>
               (if whereKeys w = [] then []
                else '' WHERE '' @ array_join '' AND ''
                       (map (\<lambda>key. if convertValueForSQLite h (safeGet h w key) = None
                                    then key @ '' IS NULL'' else key @ '' = ?'')
                          (whereKeys w))))
        @ orderSql opts
        @ (case limit opts of
             None \<Rightarrow> []
           | Some l \<Rightarrow> (if geZero n l then '' LIMIT '' @ numberText n l else []))
        @ (case offset opts of
             None \<Rightarrow> []
           | Some k \<Rightarrow> (if geZero n k then '' OFFSET '' @ numberText n k else [])),
        (case whereOption opts of
           None \<Rightarrow> []
         | Some w \<Rightarrow>
             List.map_filter (\<lambda>key. convertValueForSQLite h (safeGet h w key)) (whereKeys w)))"
    by (simp add: findAllQuery_def whereSql_eq limitSql_def offsetSql_def split: option.splits)
qed

theorem find_all_query_witness:
  "whereOption sampleFind = Some [(''a'', Some (Some 1)), (''b'', None), (''c'', Some None)]
   \<and> distinct (map fst [(''a'', Some (Some (1::int))), (''b'', None), (''c'', Some None)])
   \<and> whereKeys [(''a'', Some (Some (1::int))), (''b'', None), (''c'', Some None)] = [''a'', ''c'']
   \<and> findAllQuery sampleHelpers sampleNumbers ''Users'' sampleFind
       = (''SELECT * FROM Users WHERE a = ? AND c IS NULL LIMIT 10'', [1])"
proof -
  let ?w = "[(''a'', Some (Some (1::int))), (''b'', None), (''c'', Some None)]"
  have o: "whereOption sampleFind = Some ?w"
    by (simp add: sampleFind_def)
  have d: "distinct (map fst ?w)"
    by simp
  note q = find_all_query [of sampleFind sampleHelpers sampleNumbers "''Users''"]
  from q o d have k: "whereKeys ?w = map fst (filter (\<lambda>(key, v). v \<noteq> None) ?w)"
    by blast
  then have k': "whereKeys ?w = [''a'', ''c'']"
    by simp
  from q have "findAllQuery sampleHelpers sampleNumbers ''Users'' sampleFind
       = (''SELECT * FROM Users WHERE a = ? AND c IS NULL LIMIT 10'', [1])"
    by (simp add: o k' orderSql_def)
       (simp add: sampleFind_def sampleHelpers_def sampleNumbers_def propertyValue_def)
  with o d k' show ?thesis by blast
qed

end
